theory Spec2Isabelle
  imports Complex_Main "HOL-Library.Sublist" "HOL-Library.List_Lexorder" "HOL-Library.Char_ord"
begin

section \<open>Python strings\<close>

text \<open>
  A Python \<open>str\<close> is a sequence of code points. It is modelled as a \<open>string\<close>
  whose characters are the code points below 256, so \<open>length\<close> is Python's
  \<open>len\<close> and \<open>take n\<close> is the slice \<open>[:n]\<close> on such strings.
\<close>

text \<open>\<open>str.isspace\<close> on one code point below 256: TAB to CR, FS to US, the blank,
  NEL (133) and the no-break space (160).\<close>

definition is_space :: "char \<Rightarrow> bool" where
  "is_space c =
     (let n = (of_char c :: nat)
      in (9 \<le> n \<and> n \<le> 13) \<or> (28 \<le> n \<and> n \<le> 32) \<or> n = 133 \<or> n = 160)"

text \<open>\<open>s.strip()\<close>: leading and trailing whitespace removed.\<close>

definition strip :: "string \<Rightarrow> string" where
  "strip s = rev (dropWhile is_space (rev (dropWhile is_space s)))"

text \<open>\<open>s.lower()\<close> on code points below 256: A to Z and the accented capitals
  192 to 222 (the multiplication sign 215 apart) move up by 32.\<close>

definition lower_char :: "char \<Rightarrow> char" where
  "lower_char c =
     (let n = (of_char c :: nat)
      in if (65 \<le> n \<and> n \<le> 90) \<or> (192 \<le> n \<and> n \<le> 222 \<and> n \<noteq> 215)
         then char_of (n + 32) else c)"

definition lower :: "string \<Rightarrow> string" where
  "lower s = map lower_char s"

text \<open>\<open>s.startswith(p)\<close>.\<close>

definition startswith :: "string \<Rightarrow> string \<Rightarrow> bool" where
  "startswith s p = (take (length p) s = p)"

section \<open>IssuesProcessing.py: summaries\<close>

text \<open>
  The loop of \<open>_compare_fields\<close> that strips every leading retirement prefix from the
  current summary:
  \<^verbatim>\<open>
    base_summary = current_summary
    while base_summary.startswith("Retired-") or base_summary.startswith("Retired - "):
        if base_summary.startswith("Retired - "):
            base_summary = base_summary[len("Retired - "):].strip()
        elif base_summary.startswith("Retired-"):
            base_summary = base_summary[len("Retired-"):].strip()
  \<close>
\<close>

lemma length_strip_le: "length (strip s) \<le> length s"
proof -
  have "length (strip s) \<le> length (dropWhile is_space s)"
    unfolding strip_def using length_dropWhile_le [of is_space "rev (dropWhile is_space s)"]
    by simp
  also have "\<dots> \<le> length s"
    by (rule length_dropWhile_le)
  finally show ?thesis .
qed

lemma startswith_length: "startswith s p \<Longrightarrow> length p \<le> length s"
proof -
  assume "startswith s p"
  then have "length (take (length p) s) = length p"
    by (simp add: startswith_def)
  then show ?thesis
    by simp
qed

function base_summary :: "string \<Rightarrow> string" where
  "base_summary s =
     (if startswith s ''Retired-'' \<or> startswith s ''Retired - '' then
        (if startswith s ''Retired - '' then base_summary (strip (drop 10 s))
         else base_summary (strip (drop 8 s)))
      else s)"
  by pat_completeness auto
termination
proof (relation "measure length")
  show "wf (measure length)" by simp
next
  fix s :: string
  assume "startswith s ''Retired-'' \<or> startswith s ''Retired - ''" "startswith s ''Retired - ''"
  then have "10 \<le> length s"
    using startswith_length [of s "''Retired - ''"] by simp
  moreover have "length (strip (drop 10 s)) \<le> length s - 10"
    using length_strip_le [of "drop 10 s"] by simp
  ultimately show "(strip (drop 10 s), s) \<in> measure length"
    by simp
next
  fix s :: string
  assume "startswith s ''Retired-'' \<or> startswith s ''Retired - ''" "\<not> startswith s ''Retired - ''"
  then have "8 \<le> length s"
    using startswith_length [of s "''Retired-''"] by auto
  moreover have "length (strip (drop 8 s)) \<le> length s - 8"
    using length_strip_le [of "drop 8 s"] by simp
  ultimately show "(strip (drop 8 s), s) \<in> measure length"
    by simp
qed

declare base_summary.simps [simp del]

text \<open>The summary \<open>_compare_fields\<close> expects of a retired service:
  \<^verbatim>\<open>expected_summary = f"Retired-{base_summary}"[:255]\<close>\<close>

definition expected_summary :: "string \<Rightarrow> string" where
  "expected_summary current_summary = take 255 (''Retired-'' @ base_summary current_summary)"

text \<open>
  The summary part of \<open>_compare_fields\<close>: the value stored under \<open>updates["summary"]\<close>,
  or \<open>None\<close> when the key is not set. The first argument is
  \<open>record.get("operational_status")\<close>.
\<close>

definition summary_update :: "string option \<Rightarrow> string \<Rightarrow> string option" where
  "summary_update operational_status current_summary =
     (let base = base_summary current_summary in
      if operational_status = Some ''6'' then
        (let expected = take 255 (''Retired-'' @ base) in
         if current_summary \<noteq> expected then Some expected else None)
      else
        (if current_summary \<noteq> base then Some (take 255 base) else None))"

section \<open>ServiceNow export records\<close>

text \<open>
  One record of the export is a JSON object. The values the synchronisation reads are
  strings or \<open>null\<close>; \<open>record.get(key)\<close> is \<open>None\<close> for a missing key and for
  a \<open>null\<close> value alike, \<open>record.get(key, default)\<close> is the default for a missing key only.
\<close>

datatype json = JNull | JStr string

type_synonym sn_record = "string \<Rightarrow> json option"

definition rec_get :: "sn_record \<Rightarrow> string \<Rightarrow> string option" where
  "rec_get r k = (case r k of None \<Rightarrow> None | Some JNull \<Rightarrow> None | Some (JStr s) \<Rightarrow> Some s)"

definition rec_get_default :: "sn_record \<Rightarrow> string \<Rightarrow> string \<Rightarrow> string option" where
  "rec_get_default r k d = (case r k of None \<Rightarrow> Some d | Some JNull \<Rightarrow> None | Some (JStr s) \<Rightarrow> Some s)"

text \<open>\<open>str(v)\<close>, as an f-string formats a value: \<open>None\<close> prints as the word None.\<close>

definition py_str :: "string option \<Rightarrow> string" where
  "py_str v = (case v of None \<Rightarrow> ''None'' | Some s \<Rightarrow> s)"

text \<open>The summary written by \<open>create_business_service_issue\<close>:
  \<^verbatim>\<open>
    name = record.get("name", "Unknown")
    sys_id = record.get("sys_id", "Unknown")
    summary = f"{name} | {sys_id}"[:255]
  \<close>\<close>

definition create_summary :: "sn_record \<Rightarrow> string" where
  "create_summary record =
     (let name = rec_get_default record ''name'' ''Unknown'';
          sys_id = rec_get_default record ''sys_id'' ''Unknown''
      in take 255 (py_str name @ '' | '' @ py_str sys_id))"

section \<open>Business_service.py: the status enumeration\<close>

definition status_mapping :: "(string \<times> string) list" where
  "status_mapping =
     [(''1'', ''Operational (1)''),
      (''2'', ''Non-Operational (2)''),
      (''3'', ''Repair in Progress (3)''),
      (''4'', ''DR Standby (4)''),
      (''5'', ''Ready (5)''),
      (''6'', ''Retired (6)''),
      (''20'', ''Planned (20)'')]"

definition map_operational_status :: "string option \<Rightarrow> string option" where
  "map_operational_status status_code =
     (case status_code of None \<Rightarrow> None | Some c \<Rightarrow> map_of status_mapping c)"

section \<open>IssuesProcessing.py: comparing an issue with its record\<close>

text \<open>
  A field of a Jira issue, as \<open>fields.get(field_id)\<close> reads it: absent or \<open>null\<close>
  (both \<open>None\<close>), a text, or an option object, of which the code reads
  \<open>.get("value")\<close> and \<open>.get("name")\<close>.
\<close>

datatype fval = FNull | FStr string | FDict "string option" "string option"

record issue =
  i_key :: string
  i_fields :: "string \<Rightarrow> fval option"

text \<open>\<open>CUSTOM_FIELDS\<close>, the field identifiers of the project configuration. The
  configuration file is not part of the sources, so the identifiers are a parameter.\<close>

record custom_fields =
  business_domain_id :: string
  business_service_id :: string
  business_service_name :: string
  business_service_short_name :: string
  business_service_status :: string
  business_service_usage :: string
  business_service_classification :: string

datatype field_type = Text | Select

text \<open>\<open>d[k] = v\<close> on a dictionary kept in insertion order.\<close>

fun dict_set :: "('k \<times> 'v) list \<Rightarrow> 'k \<Rightarrow> 'v \<Rightarrow> ('k \<times> 'v) list" where
  "dict_set [] k v = [(k, v)]"
| "dict_set ((k', v') # d) k v = (if k' = k then (k, v) # d else (k', v') # dict_set d k v)"

text \<open>\<open>field_mappings\<close> of \<open>_compare_fields\<close>: a dictionary from the field identifier to
  \<open>json_key\<close>, \<open>type\<close> and the \<open>mapper\<close> marker, whose entries are set in the order they are
  written. An identifier that the configuration gives to two fields keeps its first
  place and its last entry.\<close>

definition field_mappings :: "custom_fields \<Rightarrow> (string \<times> string \<times> field_type \<times> bool) list" where
  "field_mappings cf =
     foldl (\<lambda>d (field_id, config). dict_set d field_id config) []
       [(business_domain_id cf, ''u_business_domain'', Text, False),
        (business_service_name cf, ''name'', Text, False),
        (business_service_short_name cf, ''u_short_service_id'', Text, False),
        (business_service_status cf, ''operational_status'', Select, True),
        (business_service_usage cf, ''used_for'', Select, False),
        (business_service_classification cf, ''service_classification'', Select, False)]"

text \<open>\<open>_normalize_value\<close>: \<open>None\<close> stays, a text is stripped, a blank text is \<open>None\<close>.\<close>

definition normalize_value :: "string option \<Rightarrow> string option" where
  "normalize_value v =
     (case v of None \<Rightarrow> None
      | Some s \<Rightarrow> (let value_str = strip s in if value_str \<noteq> [] then Some value_str else None))"

text \<open>\<open>a or b\<close> on values that are \<open>None\<close> or a text: \<open>a\<close> when it is a non-empty text.\<close>

definition py_or :: "string option \<Rightarrow> string option \<Rightarrow> string option" where
  "py_or a b = (case a of None \<Rightarrow> b | Some s \<Rightarrow> (if s \<noteq> [] then a else b))"

text \<open>The current value of a field:
  \<^verbatim>\<open>
    current_value = fields.get(field_id)
    if isinstance(current_value, dict):
        current_value = current_value.get("value") or current_value.get("name")
  \<close>\<close>

definition current_value_of :: "fval option \<Rightarrow> string option" where
  "current_value_of v =
     (case v of None \<Rightarrow> None
      | Some FNull \<Rightarrow> None
      | Some (FStr s) \<Rightarrow> Some s
      | Some (FDict value name) \<Rightarrow> py_or value name)"

text \<open>What \<open>updates\<close> holds for one key: a text, an option \<open>{"value": v}\<close>, \<open>None\<close>
  (the cleared assignee) or \<open>{"accountId": a}\<close> (the reporter).\<close>

datatype uval = UText string | USelect string | UNone | UAccount string

type_synonym updates = "(string \<times> uval) list"

text \<open>One turn of the loop over \<open>field_mappings\<close>; \<open>issue_fields\<close> is the
  dictionary \<open>fields\<close> of the source.\<close>

definition compare_field ::
  "(string \<Rightarrow> fval option) \<Rightarrow> sn_record \<Rightarrow> string \<times> string \<times> field_type \<times> bool \<Rightarrow> updates \<Rightarrow> updates"
where
  "compare_field issue_fields record m updates =
     (case m of (field_id, json_key, ftype, mapper) \<Rightarrow>
        (let new_value0 = rec_get record json_key;
             new_value1 =
               (if mapper \<and> json_key = ''operational_status'' \<and> new_value0 \<noteq> None
                then map_operational_status new_value0 else new_value0);
             current_value = normalize_value (current_value_of (issue_fields field_id));
             new_value = normalize_value new_value1
         in if current_value \<noteq> new_value then
              (case new_value of
                 None \<Rightarrow> updates
               | Some v \<Rightarrow>
                   (case ftype of
                      Select \<Rightarrow> dict_set updates field_id (USelect v)
                    | Text \<Rightarrow> dict_set updates field_id (UText v)))
            else updates))"

datatype py_error = AttributeError | TypeError | StopIteration | RequestException

text \<open>\<open>fields.get("summary", "")\<close>, on which \<open>_compare_fields\<close> calls \<open>startswith\<close>:
  a value that is not a text has no such method.\<close>

definition summary_of :: "(string \<Rightarrow> fval option) \<Rightarrow> py_error + string" where
  "summary_of issue_fields =
     (case issue_fields ''summary'' of
        None \<Rightarrow> Inr []
      | Some (FStr s) \<Rightarrow> Inr s
      | Some FNull \<Rightarrow> Inl AttributeError
      | Some (FDict v n) \<Rightarrow> Inl AttributeError)"

text \<open>\<open>_compare_fields\<close>: the dictionary of fields to update.\<close>

definition compare_fields :: "custom_fields \<Rightarrow> issue \<Rightarrow> sn_record \<Rightarrow> py_error + updates" where
  "compare_fields cf existing_issue record =
     (let updates = fold (compare_field (i_fields existing_issue) record) (field_mappings cf) [];
          operational_status = rec_get record ''operational_status''
      in case summary_of (i_fields existing_issue) of
           Inl e \<Rightarrow> Inl e
         | Inr current_summary \<Rightarrow>
             (case summary_update operational_status current_summary of
                None \<Rightarrow> Inr updates
              | Some new_summary \<Rightarrow> Inr (dict_set updates ''summary'' (UText new_summary))))"

section \<open>jira\_utils.py: update\_issue\<close>

definition RATE_LIMIT_DELAY :: rat where "RATE_LIMIT_DELAY = 1 / 2"
definition MAX_RETRIES :: nat where "MAX_RETRIES = 3"
definition RETRY_BASE_DELAY :: nat where "RETRY_BASE_DELAY = 10"

text \<open>
  What one \<open>requests.put\<close> does: it returns a response with a status code, or raises
  (no connection, timeout). The remote side is a function from the number of the
  attempt to that outcome.
\<close>

datatype put_outcome = Status nat | Raises

text \<open>What the caller can observe of one call: the requests sent and the sleeps.\<close>

datatype event = Put_request | Sleep rat

text \<open>\<open>response.raise_for_status()\<close> raises \<open>HTTPError\<close> for the codes 400 to 599.\<close>

definition raises_for_status :: "nat \<Rightarrow> bool" where
  "raises_for_status code = (400 \<le> code \<and> code < 600)"

text \<open>
  The truth value of a \<open>requests.Response\<close> is its \<open>ok\<close> attribute: false exactly when
  \<open>raise_for_status\<close> would raise. The handler tests \<open>er.response and ...\<close>.
\<close>

definition response_truthy :: "nat \<Rightarrow> bool" where
  "response_truthy code = (\<not> raises_for_status code)"

text \<open>
  The loop \<open>for attempt in range(MAX_RETRIES)\<close> of \<open>update_issue\<close>, from \<open>attempt\<close> on.
  The result is the returned status code (\<open>None\<close> on failure) and the events so far.
\<close>

function update_issue_from :: "(nat \<Rightarrow> put_outcome) \<Rightarrow> nat \<Rightarrow> event list \<Rightarrow> nat option \<times> event list" where
  "update_issue_from remote attempt trace =
     (if attempt < MAX_RETRIES then
        (case remote attempt of
           Raises \<Rightarrow> (None, trace @ [Put_request])
         | Status code \<Rightarrow>
             (if code = 429 \<and> attempt < MAX_RETRIES - 1 then
                update_issue_from remote (attempt + 1)
                  (trace @ [Put_request, Sleep (of_nat (RETRY_BASE_DELAY * 2 ^ attempt))])
              else if raises_for_status code then
                (if response_truthy code \<and> code \<noteq> 429 then (None, trace @ [Put_request])
                 else if attempt = MAX_RETRIES - 1 then (None, trace @ [Put_request])
                 else update_issue_from remote (attempt + 1) (trace @ [Put_request]))
              else (Some code, trace @ [Put_request, Sleep RATE_LIMIT_DELAY])))
      else (None, trace))"
  by pat_completeness auto
termination
  by (relation "measure (\<lambda>(remote, attempt, trace). MAX_RETRIES - attempt)") auto

declare update_issue_from.simps [simp del]

definition update_issue :: "(nat \<Rightarrow> put_outcome) \<Rightarrow> nat option \<times> event list" where
  "update_issue remote = update_issue_from remote 0 []"

section \<open>IssuesProcessing.py: updating an existing issue\<close>

definition VERIFICATION_LABEL :: string where
  "VERIFICATION_LABEL = ''business-service-verified''"

text \<open>The request body of \<open>_update_business_service_optimized\<close>: the labels added, the
  comments added, and \<open>payload["fields"]\<close> when that key is set.\<close>

record payload =
  labels_add :: "string list"
  comment_add :: "string list"
  payload_fields :: "updates option"

text \<open>
  The body built by \<open>_update_business_service_optimized\<close>. \<open>now\<close> is the date of the
  day, \<open>rep_id\<close> what \<open>get_mandatory_reporter_id()\<close> returns.
  \<^verbatim>\<open>
    fields_to_update = _compare_fields(existing_issue, record)
    if fields_to_update is None: fields_to_update = {}
    fields_to_update["assignee"] = None
    rep_id = get_mandatory_reporter_id()
    if rep_id:
        fields_to_update["reporter"] = {"accountId": rep_id}
    payload = {"update": {"labels": [{"add": VERIFICATION_LABEL}],
                          "comment": [...] if fields_to_update else []}}
    if fields_to_update:
        payload["fields"] = fields_to_update
  \<close>
\<close>

definition update_payload ::
  "string \<Rightarrow> string option \<Rightarrow> custom_fields \<Rightarrow> issue \<Rightarrow> sn_record \<Rightarrow> py_error + payload"
where
  "update_payload now rep_id cf existing_issue record =
     (case compare_fields cf existing_issue record of
        Inl e \<Rightarrow> Inl e
      | Inr compared \<Rightarrow>
          (let with_assignee = dict_set compared ''assignee'' UNone;
               fields_to_update =
                 (case rep_id of
                    None \<Rightarrow> with_assignee
                  | Some r \<Rightarrow>
                      (if r \<noteq> [] then dict_set with_assignee ''reporter'' (UAccount r)
                       else with_assignee))
           in Inr \<lparr> labels_add = [VERIFICATION_LABEL],
                    comment_add =
                      (if fields_to_update \<noteq> []
                       then [''Business service info updated on '' @ now] else []),
                    payload_fields =
                      (if fields_to_update \<noteq> [] then Some fields_to_update else None) \<rparr>))"

text \<open>
  \<open>_update_business_service_optimized\<close>: whether it reports success, and the body it
  sent, if it sent one. Any exception is caught and reported as a failure; a dry run
  sends nothing and reports success.
\<close>

definition update_business_service_optimized ::
  "bool \<Rightarrow> (nat \<Rightarrow> put_outcome) \<Rightarrow> string \<Rightarrow> string option \<Rightarrow> custom_fields \<Rightarrow> issue \<Rightarrow> sn_record
     \<Rightarrow> bool \<times> payload option"
where
  "update_business_service_optimized dry_run remote now rep_id cf existing_issue record =
     (case update_payload now rep_id cf existing_issue record of
        Inl e \<Rightarrow> (False, None)
      | Inr p \<Rightarrow>
          (if dry_run then (True, None)
           else (fst (update_issue remote) \<noteq> None, Some p)))"

section \<open>Paginated fetches\<close>

subsection \<open>Token-based search: fetch\_jira\_issues\_paginated and load\_all\_business\_services\_with\_fields\<close>

text \<open>
  What one search request does: it fails (the transport raises, or \<open>raise_for_status\<close>
  does), or it answers with \<open>result.get("issues", [])\<close> and
  \<open>result.get("nextPageToken")\<close>. The remote side is a function from the number of the
  request and the token sent with it to that outcome, so that two requests with the same
  token may be answered differently.
\<close>

datatype 'a search_response = Search_fails | Search_page "'a list" "string option"

text \<open>The truth value of a token: \<open>None\<close> and the empty text are false.\<close>

definition truthy :: "string option \<Rightarrow> bool" where
  "truthy t = (case t of None \<Rightarrow> False | Some s \<Rightarrow> s \<noteq> [])"

text \<open>
  The \<open>while True\<close> loop, the same in both functions (the logging and the \<open>total\<close> it
  prints left out), from request \<open>n\<close> on:
  \<^verbatim>\<open>
    response = requests.post(url, ...); response.raise_for_status()
    result = response.json()
    issues = result.get("issues", [])
    all_issues.extend(issues)
    next_page_token = result.get("nextPageToken")
    if not next_page_token:
        break
    if len(issues) == 0:
        break
  \<close>
  The loop may run forever: \<open>None\<close> is the run that never ends; \<open>Some (Inl e)\<close> is the
  exception \<open>e\<close> leaving the loop.
\<close>

partial_function (option) search_loop ::
  "(nat \<Rightarrow> string option \<Rightarrow> 'a search_response) \<Rightarrow> nat \<Rightarrow> string option \<Rightarrow> 'a list
     \<Rightarrow> (py_error + 'a list) option"
where
  "search_loop remote n next_page_token all_issues =
     (case remote n next_page_token of
        Search_fails \<Rightarrow> Some (Inl RequestException)
      | Search_page issues token \<Rightarrow>
          (if \<not> truthy token then Some (Inr (all_issues @ issues))
           else if length issues = 0 then Some (Inr (all_issues @ issues))
           else search_loop remote (n + 1) token (all_issues @ issues)))"

declare search_loop.simps [code]

text \<open>\<open>fetch_jira_issues_paginated\<close>: both \<open>except\<close> clauses end in \<open>return []\<close>.\<close>

definition fetch_jira_issues_paginated ::
  "(nat \<Rightarrow> string option \<Rightarrow> 'a search_response) \<Rightarrow> 'a list option"
where
  "fetch_jira_issues_paginated remote =
     (case search_loop remote 0 None [] of
        None \<Rightarrow> None
      | Some (Inl e) \<Rightarrow> Some []
      | Some (Inr all_issues) \<Rightarrow> Some all_issues)"

text \<open>\<open>s.split(sep)[0]\<close> for a non-empty \<open>sep\<close>: what stands before its first occurrence.\<close>

fun before_first :: "string \<Rightarrow> string \<Rightarrow> string" where
  "before_first sep [] = []"
| "before_first sep (c # cs) = (if startswith (c # cs) sep then [] else c # before_first sep cs)"

text \<open>The key of the name index:
  \<^verbatim>\<open>
    clean_name = summary.split(" | ")[0]
    for prefix in ["Retired-", "Retired - "]:
        if clean_name.startswith(prefix):
            clean_name = clean_name[len(prefix):].strip()
  \<close>\<close>

definition clean_name_of :: "string \<Rightarrow> string" where
  "clean_name_of summary =
     (let c0 = before_first '' | '' summary;
          c1 = (if startswith c0 ''Retired-'' then strip (drop 8 c0) else c0);
          c2 = (if startswith c1 ''Retired - '' then strip (drop 10 c1) else c1)
      in c2)"

type_synonym issue_index = "(string \<times> issue) list"

text \<open>
  One turn of the indexing loop. A \<open>sys_id\<close> that is an object cannot be a dictionary
  key, a summary that is not a text has no \<open>split\<close>.
\<close>

definition index_issue ::
  "custom_fields \<Rightarrow> issue \<Rightarrow> issue_index \<times> issue_index \<Rightarrow> py_error + issue_index \<times> issue_index"
where
  "index_issue cf i acc =
     (case acc of (indexed_issues, name_indexed_issues) \<Rightarrow>
        (case (case i_fields i (business_service_id cf) of
                 None \<Rightarrow> Inr indexed_issues
               | Some FNull \<Rightarrow> Inr indexed_issues
               | Some (FStr sys_id) \<Rightarrow>
                   Inr (if sys_id \<noteq> [] then dict_set indexed_issues sys_id i else indexed_issues)
               | Some (FDict v n) \<Rightarrow> Inl TypeError)
         of Inl e \<Rightarrow> Inl e
          | Inr indexed_issues' \<Rightarrow>
              (case summary_of (i_fields i) of
                 Inl e \<Rightarrow> Inl e
               | Inr summary \<Rightarrow>
                   (let clean_name = clean_name_of summary
                    in Inr (indexed_issues',
                            if clean_name \<noteq> []
                            then dict_set name_indexed_issues (lower clean_name) i
                            else name_indexed_issues)))))"

fun index_issues ::
  "custom_fields \<Rightarrow> issue list \<Rightarrow> issue_index \<times> issue_index \<Rightarrow> py_error + issue_index \<times> issue_index"
where
  "index_issues cf [] acc = Inr acc"
| "index_issues cf (i # rest) acc =
     (case index_issue cf i acc of Inl e \<Rightarrow> Inl e | Inr acc' \<Rightarrow> index_issues cf rest acc')"

text \<open>\<open>load_all_business_services_with_fields\<close>: the \<open>except\<close> clause ends in
  \<open>return {}, {}\<close>.\<close>

definition load_all_business_services_with_fields ::
  "custom_fields \<Rightarrow> (nat \<Rightarrow> string option \<Rightarrow> issue search_response)
     \<Rightarrow> (issue_index \<times> issue_index) option"
where
  "load_all_business_services_with_fields cf remote =
     (case search_loop remote 0 None [] of
        None \<Rightarrow> None
      | Some (Inl e) \<Rightarrow> Some ([], [])
      | Some (Inr all_issues) \<Rightarrow>
          (case index_issues cf all_issues ([], []) of
             Inl e \<Rightarrow> Some ([], [])
           | Inr indexes \<Rightarrow> Some indexes))"

text \<open>
  The state in which the loop sends request \<open>n\<close>, when it gets that far: the token it
  sends and the records it holds.
\<close>

primrec search_state ::
  "(nat \<Rightarrow> string option \<Rightarrow> 'a search_response) \<Rightarrow> nat \<Rightarrow> (string option \<times> 'a list) option"
where
  "search_state remote 0 = Some (None, [])"
| "search_state remote (Suc n) =
     (case search_state remote n of
        None \<Rightarrow> None
      | Some (next_page_token, all_issues) \<Rightarrow>
          (case remote n next_page_token of
             Search_fails \<Rightarrow> None
           | Search_page issues token \<Rightarrow>
               (if truthy token \<and> length issues \<noteq> 0 then Some (token, all_issues @ issues)
                else None)))"

subsection \<open>Offset-based options: sync\_cdl\_combined.fetch\_all\_options\<close>

text \<open>
  One request for options fails, or answers with \<open>data_opt.get("values", [])\<close> and
  \<open>data_opt.get("isLast", True)\<close>. Every request has a \<open>startAt\<close> of its own, so the
  remote side is a function of it.
\<close>

datatype 'a option_response = Option_fails | Option_page "'a list" bool

text \<open>
  \<^verbatim>\<open>
    while True:
        response = SESSION.get(url); response.raise_for_status()
        data_opt = response.json()
        options = data_opt.get("values", [])
        all_options.extend(options)
        if data_opt.get("isLast", True):
            break
        start_at += max_results
  \<close>
  There is no \<open>try\<close> around it: an exception leaves the function.
\<close>

partial_function (option) options_loop ::
  "(nat \<Rightarrow> 'a option_response) \<Rightarrow> nat \<Rightarrow> 'a list \<Rightarrow> (py_error + 'a list) option"
where
  "options_loop remote start_at all_options =
     (case remote start_at of
        Option_fails \<Rightarrow> Some (Inl RequestException)
      | Option_page options is_last \<Rightarrow>
          (if is_last then Some (Inr (all_options @ options))
           else options_loop remote (start_at + 100) (all_options @ options)))"

declare options_loop.simps [code]

definition fetch_all_options :: "(nat \<Rightarrow> 'a option_response) \<Rightarrow> (py_error + 'a list) option" where
  "fetch_all_options remote = options_loop remote 0 []"

text \<open>The options held when the request with \<open>startAt = 100 * n\<close> is sent, when the loop
  gets that far.\<close>

primrec options_state :: "(nat \<Rightarrow> 'a option_response) \<Rightarrow> nat \<Rightarrow> 'a list option" where
  "options_state remote 0 = Some []"
| "options_state remote (Suc n) =
     (case options_state remote n of
        None \<Rightarrow> None
      | Some all_options \<Rightarrow>
          (case remote (100 * n) of
             Option_fails \<Rightarrow> None
           | Option_page options is_last \<Rightarrow>
               (if is_last then None else Some (all_options @ options))))"

section \<open>business\_domain.py: adding the missing domains to the Confluence table\<close>

text \<open>An entry of \<open>domains_data\<close>: a JSON object, or anything else (skipped by
  \<open>isinstance(domain, dict)\<close>).\<close>

datatype json_entry = Other | Object sn_record

text \<open>\<open>domain_info\<close>, the dictionary passed on: \<open>sys_id\<close> and \<open>name\<close>.\<close>

record domain_info =
  info_sys_id :: "string option"
  info_name :: string

text \<open>
  What the pass does to the outside and to \<open>stats\<close>: the calls of
  \<open>update_confluence_table_with_new_domain(domain_info, is_planned, rule_id=None)\<close>, in
  order, each with its \<open>is_planned\<close>, and the two counters these functions touch.
\<close>

record add_state =
  table_adds :: "(domain_info \<times> bool) list"
  planned_added :: nat
  retired_added :: nat

text \<open>
  \<open>_add_planned_domain\<close>, \<open>_add_retired_domain\<close> and \<open>_add_active_domain\<close>.
  \<open>auto_update\<close> is \<open>AUTO_UPDATE_CONFLUENCE\<close>; \<open>table_ok k\<close> is what the call number
  \<open>k\<close> of \<open>update_confluence_table_with_new_domain\<close> returns.
\<close>

definition add_planned_domain :: "bool \<Rightarrow> (nat \<Rightarrow> bool) \<Rightarrow> domain_info \<Rightarrow> add_state \<Rightarrow> add_state" where
  "add_planned_domain auto_update table_ok info st =
     (if \<not> auto_update then st
      else (let k = length (table_adds st);
                st' = st \<lparr> table_adds := table_adds st @ [(info, True)] \<rparr>
            in if table_ok k then st' \<lparr> planned_added := planned_added st' + 1 \<rparr> else st'))"

definition add_retired_domain :: "bool \<Rightarrow> (nat \<Rightarrow> bool) \<Rightarrow> domain_info \<Rightarrow> add_state \<Rightarrow> add_state" where
  "add_retired_domain auto_update table_ok info st =
     (if \<not> auto_update then st
      else (let k = length (table_adds st);
                st' = st \<lparr> table_adds := table_adds st @ [(info, True)] \<rparr>
            in if table_ok k then st' \<lparr> retired_added := retired_added st' + 1 \<rparr> else st'))"

definition add_active_domain :: "bool \<Rightarrow> (nat \<Rightarrow> bool) \<Rightarrow> domain_info \<Rightarrow> add_state \<Rightarrow> add_state" where
  "add_active_domain auto_update table_ok info st =
     (if \<not> auto_update then st
      else (let k = length (table_adds st);
                st' = st \<lparr> table_adds := table_adds st @ [(info, True)] \<rparr>
            in if table_ok k then st' \<lparr> planned_added := planned_added st' + 1 \<rparr> else st'))"

text \<open>
  One turn of the loop of \<open>_add_missing_domains_to_confluence\<close>:
  \<^verbatim>\<open>
    if not isinstance(domain, dict): continue
    domain_sys_id = domain.get("sys_id")
    if domain_sys_id in automation_table or domain_sys_id in processed_ids: continue
    operational_status = domain.get("operational_status")
    domain_name = domain.get("name")
    if not domain_name: continue
    domain_info = {"sys_id": domain_sys_id, "name": domain.get("name", "")}
    if operational_status == "20":
        _add_planned_domain(domain_info, stats)
    elif operational_status == "6":
        _add_retired_domain(domain_info, stats)
    elif operational_status in ["1", "", None]:
        _add_active_domain(domain_info, stats)  # Active
        _add_active_domain(domain_info, stats)
  \<close>
  \<open>automation_table\<close> is read through its keys only.
\<close>

definition add_missing_domain ::
  "bool \<Rightarrow> (nat \<Rightarrow> bool) \<Rightarrow> string set \<Rightarrow> string set \<Rightarrow> json_entry \<Rightarrow> add_state \<Rightarrow> add_state"
where
  "add_missing_domain auto_update table_ok automation_table processed_ids entry st =
     (case entry of
        Other \<Rightarrow> st
      | Object domain \<Rightarrow>
          (let domain_sys_id = rec_get domain ''sys_id'' in
           if (case domain_sys_id of None \<Rightarrow> False
               | Some i \<Rightarrow> i \<in> automation_table \<or> i \<in> processed_ids)
           then st
           else
             (let operational_status = rec_get domain ''operational_status'';
                  domain_name = rec_get domain ''name''
              in case domain_name of
                   None \<Rightarrow> st
                 | Some name \<Rightarrow>
                     (if name = [] then st
                      else
                        (let info = \<lparr> info_sys_id = domain_sys_id, info_name = name \<rparr>
                         in if operational_status = Some ''20'' then
                              add_planned_domain auto_update table_ok info st
                            else if operational_status = Some ''6'' then
                              add_retired_domain auto_update table_ok info st
                            else if operational_status \<in> {Some ''1'', Some [], None} then
                              add_active_domain auto_update table_ok info
                                (add_active_domain auto_update table_ok info st)
                            else st)))))"

definition add_missing_domains_to_confluence ::
  "bool \<Rightarrow> (nat \<Rightarrow> bool) \<Rightarrow> json_entry list \<Rightarrow> string set \<Rightarrow> string set \<Rightarrow> add_state \<Rightarrow> add_state"
where
  "add_missing_domains_to_confluence auto_update table_ok all_domains automation_table processed_ids st =
     fold (add_missing_domain auto_update table_ok automation_table processed_ids) all_domains st"

section \<open>sync\_cdl\_combined.py: the cascade pass\<close>

text \<open>\<open>normalize_name\<close>: \<open>name_norm.strip().lower()\<close>.\<close>

definition normalize_name :: "string \<Rightarrow> string" where
  "normalize_name name_norm = lower (strip name_norm)"

text \<open>
  A child of the target structure is \<open>{"name", "disabled"}\<close>; a child of the current
  Jira structure is \<open>{"name", "disabled", "id"}\<close>; a current parent is
  \<open>{"id", "children"}\<close>. Both structures are dictionaries from the parent's name, kept
  in their order of iteration.
\<close>

record target_child =
  t_name :: string
  t_disabled :: bool

record jira_child =
  j_name :: string
  j_disabled :: bool
  j_id :: string

record jira_parent =
  p_id :: string
  p_children :: "jira_child list"

type_synonym cascade = "(string \<times> target_child list) list"
type_synonym jira_tree = "(string \<times> jira_parent) list"

text \<open>
  What the pass decides for one entity. Each decision is a row of the report
  (\<open>log_full\<close>) and, in apply mode, the requests of \<open>calls_of\<close>.
  \<^item> \<open>Deleted parent child\<close>: row \<open>DELETED (Status 20)\<close>;
  \<^item> \<open>Parent_missing parent\<close>;
  \<^item> \<open>To_add parent child option_id\<close>, with the identifier of the Jira parent;
  \<^item> \<open>To_move parent child found_in child_id option_id\<close>;
  \<^item> \<open>To_reactivate parent child child_id\<close>;
  \<^item> \<open>To_disable parent child\<close>;
  \<^item> \<open>OK parent name\<close>.
\<close>

datatype decision =
    Deleted string jira_child
  | Parent_missing string
  | To_add string target_child string
  | To_move string target_child string string string
  | To_reactivate string target_child string
  | To_disable string jira_child
  | OK string string

text \<open>The requests sent to Jira: \<open>DELETE .../option/{id}\<close>,
  \<open>POST .../option\<close> with \<open>value\<close>, \<open>disabled\<close> and \<open>optionId\<close>,
  \<open>PUT .../option/{id}\<close> with \<open>{"disabled": flag}\<close>, and \<open>PUT .../option/move\<close> with
  \<open>customFieldOptionIds\<close> (and \<open>"position": "First"\<close>).\<close>

datatype api_call =
    Delete_option string
  | Create_option string bool string
  | Set_disabled string bool
  | Move_options "string list"

text \<open>The requests of one decision in apply mode (\<open>DISABLE_OBSOLETE\<close> and
  \<open>REACTIVATE_ACTIVE\<close> are both \<open>True\<close>).\<close>

fun calls_of :: "decision \<Rightarrow> api_call list" where
  "calls_of (Deleted parent child) = [Delete_option (j_id child)]"
| "calls_of (Parent_missing parent) = []"
| "calls_of (To_add parent child option_id) =
     [Create_option (t_name child) (t_disabled child) option_id]"
| "calls_of (To_move parent child found_in child_id option_id) =
     [Set_disabled child_id True, Create_option (t_name child) (t_disabled child) option_id]"
| "calls_of (To_reactivate parent child child_id) = [Set_disabled child_id False]"
| "calls_of (To_disable parent child) = [Set_disabled (j_id child) True]"
| "calls_of (OK parent name) = []"

text \<open>
  The preliminary step: every current child whose normalized name is in
  \<open>planned_services\<close> is deleted.
\<close>

definition planned_deletes :: "string set \<Rightarrow> jira_tree \<Rightarrow> decision list" where
  "planned_deletes planned_services current_structure =
     concat (map (\<lambda>(parent_name, data).
                    map (Deleted parent_name)
                      (filter (\<lambda>child. normalize_name (j_name child) \<in> planned_services)
                         (p_children data)))
               current_structure)"

text \<open>
  The search of one target child in the whole current structure:
  \<^verbatim>\<open>
    found_in = None; child_id = None
    for cur_parent, data in current_structure.items():
        for cur_child in data["children"]:
            if normalize_name(cur_child["name"]) == child_norm:
                found_in = cur_parent
                child_id = cur_child["id"]
                break
        if found_in:
            break
  \<close>
  The state is \<open>(found_in, child_id)\<close> once both are set. The outer loop goes on while
  \<open>found_in\<close> is false, which an empty parent name is.
\<close>

fun find_child :: "jira_tree \<Rightarrow> string \<Rightarrow> (string \<times> string) option \<Rightarrow> (string \<times> string) option" where
  "find_child [] child_norm found = found"
| "find_child ((cur_parent, data) # rest) child_norm found =
     (let found' =
            (case find (\<lambda>cur_child. normalize_name (j_name cur_child) = child_norm)
                    (p_children data) of
               None \<Rightarrow> found
             | Some cur_child \<Rightarrow> Some (cur_parent, j_id cur_child))
      in if (case found' of None \<Rightarrow> False | Some (found_in, child_id) \<Rightarrow> found_in \<noteq> [])
         then found'
         else find_child rest child_norm found')"

text \<open>
  The decision for one target child, in the branches of the source: addition, move,
  then reactivation or OK. \<open>next(...)\<close> raises \<open>StopIteration\<close> when the children of the
  Jira parent hold no child of that name.
\<close>

definition diff_child ::
  "jira_tree \<Rightarrow> string \<Rightarrow> jira_parent \<Rightarrow> target_child \<Rightarrow> py_error + decision"
where
  "diff_child current_structure parent_name jira_parent child =
     (let parent_name_norm = normalize_name parent_name;
          child_norm = normalize_name (t_name child);
          jira_children = p_children jira_parent
      in case find_child current_structure child_norm None of
           None \<Rightarrow> Inr (To_add parent_name child (p_id jira_parent))
         | Some (found_in, child_id) \<Rightarrow>
             (if found_in = [] then Inr (To_add parent_name child (p_id jira_parent))
              else if normalize_name found_in \<noteq> parent_name_norm then
                Inr (To_move parent_name child found_in child_id (p_id jira_parent))
              else
                (case find (\<lambda>c. normalize_name (j_name c) = child_norm) jira_children of
                   None \<Rightarrow> Inl StopIteration
                 | Some jira_child \<Rightarrow>
                     (if j_disabled jira_child \<and> \<not> t_disabled child
                      then Inr (To_reactivate parent_name child (j_id jira_child))
                      else Inr (OK parent_name (t_name child))))))"

text \<open>The loop over the children of one target parent: the decisions made, and the
  exception that ended it, if one did.\<close>

fun diff_children ::
  "jira_tree \<Rightarrow> string \<Rightarrow> jira_parent \<Rightarrow> target_child list \<Rightarrow> decision list \<times> py_error option"
where
  "diff_children current_structure parent_name jira_parent [] = ([], None)"
| "diff_children current_structure parent_name jira_parent (child # rest) =
     (case diff_child current_structure parent_name jira_parent child of
        Inl e \<Rightarrow> ([], Some e)
      | Inr d \<Rightarrow>
          (case diff_children current_structure parent_name jira_parent rest of
             (ds, e) \<Rightarrow> (d # ds, e)))"

text \<open>
  The loop over the target parents.
  \<^verbatim>\<open>
    jira_parent_key = next((p for p in current_structure.keys()
                            if normalize_name(p) == parent_name_norm), None)
    if not jira_parent_key: ... "Parent missing"; continue
    jira_children = current_structure[jira_parent_key]["children"]
  \<close>
  The first entry whose key has the normalized name is the entry of that key.
\<close>

fun diff_parents :: "jira_tree \<Rightarrow> cascade \<Rightarrow> decision list \<times> py_error option" where
  "diff_parents current_structure [] = ([], None)"
| "diff_parents current_structure ((parent_name, children) # rest) =
     (case find (\<lambda>(p, data). normalize_name p = normalize_name parent_name) current_structure of
        None \<Rightarrow>
          (case diff_parents current_structure rest of
             (ds, e) \<Rightarrow> (Parent_missing parent_name # ds, e))
      | Some (jira_parent_key, jira_parent) \<Rightarrow>
          (if jira_parent_key = [] then
             (case diff_parents current_structure rest of
                (ds, e) \<Rightarrow> (Parent_missing parent_name # ds, e))
           else
             (case diff_children current_structure parent_name jira_parent children of
                (ds, Some e) \<Rightarrow> (ds, Some e)
              | (ds, None) \<Rightarrow>
                  (case diff_parents current_structure rest of
                     (ds', e) \<Rightarrow> (ds @ ds', e)))))"

text \<open>
  The obsolete sweep:
  \<^verbatim>\<open>
    for parent_name, data in current_structure.items():
        target_children = [normalize_name(c["name"])
                           for c in cascade_structure.get(parent_name, [])]
        for child in data["children"]:
            if normalize_name(child["name"]) not in target_children
                    and not child.get("disabled", False):
                ... "To disable"
            else:
                if normalize_name(child["name"]) in target_children:
                    ... "OK"
  \<close>
\<close>

definition sweep_child :: "string \<Rightarrow> string list \<Rightarrow> jira_child \<Rightarrow> decision list" where
  "sweep_child parent_name target_children child =
     (if normalize_name (j_name child) \<notin> set target_children \<and> \<not> j_disabled child
      then [To_disable parent_name child]
      else if normalize_name (j_name child) \<in> set target_children
      then [OK parent_name (j_name child)]
      else [])"

definition obsolete_sweep :: "cascade \<Rightarrow> jira_tree \<Rightarrow> decision list" where
  "obsolete_sweep cascade_structure current_structure =
     concat (map (\<lambda>(parent_name, data).
                    (let target_children =
                           map (\<lambda>c. normalize_name (t_name c))
                             (case map_of cascade_structure parent_name of
                                None \<Rightarrow> []
                              | Some cs \<Rightarrow> cs)
                     in concat (map (sweep_child parent_name target_children) (p_children data))))
               current_structure)"

text \<open>
  One pass, from the target structure, the planned names and the current structure: the
  decisions in the order they are made, and the exception that ended the pass, if one
  did (the sweep is then never reached).
\<close>

definition sync_pass :: "string set \<Rightarrow> cascade \<Rightarrow> jira_tree \<Rightarrow> decision list \<times> py_error option" where
  "sync_pass planned_services cascade_structure current_structure =
     (case diff_parents current_structure cascade_structure of
        (ds, Some e) \<Rightarrow> (planned_deletes planned_services current_structure @ ds, Some e)
      | (ds, None) \<Rightarrow>
          (planned_deletes planned_services current_structure @ ds
             @ obsolete_sweep cascade_structure current_structure, None))"

text \<open>
  The reordering that closes a run in apply mode: one request for every current parent
  that has children, with their identifiers in the order of the structure read at the
  start of the run.
  \<^verbatim>\<open>
    for parent_name, data in current_structure.items():
        sorted_ids = [child["id"] for child in data["children"]]
        if sorted_ids:
            ... api_call("PUT", ".../option/move", payload_move)
  \<close>
\<close>

definition reorder_calls :: "jira_tree \<Rightarrow> api_call list" where
  "reorder_calls current_structure =
     concat (map (\<lambda>(parent_name, data).
                    (let sorted_ids = map j_id (p_children data)
                     in if sorted_ids \<noteq> [] then [Move_options sorted_ids] else []))
               current_structure)"

text \<open>The requests of a pass in apply mode, in order: those of its decisions and then,
  unless an exception has ended the run, the reordering requests.\<close>

definition pass_calls :: "string set \<Rightarrow> cascade \<Rightarrow> jira_tree \<Rightarrow> api_call list" where
  "pass_calls planned_services cascade_structure current_structure =
     (case sync_pass planned_services cascade_structure current_structure of
        (decisions, Some e) \<Rightarrow> concat (map calls_of decisions)
      | (decisions, None) \<Rightarrow> concat (map calls_of decisions) @ reorder_calls current_structure)"

subsection \<open>What the requests do to the options in Jira\<close>

text \<open>
  The effect of the requests on the options, seen as the structure the next run builds
  from them (lines 171 to 189): a deleted option is gone, \<open>disabled\<close> is set on the
  option of that identifier, and a created option stands under the parent whose
  identifier is its \<open>optionId\<close>, where the next run finds it among the children sorted by
  \<open>name.lower()\<close> (a stable sort of the old children followed by the new one). The
  identifier of the new option is chosen by Jira: \<open>new_id k\<close> for the \<open>k\<close>-th request.
  A reordering request changes the order in which Jira lists the options it names, to
  the order these children already have in the structure; the next run sorts the
  children again, and builds the same structure with or without it.
\<close>

definition delete_option :: "string \<Rightarrow> jira_tree \<Rightarrow> jira_tree" where
  "delete_option i current_structure =
     map (\<lambda>(parent_name, data).
            (parent_name, data \<lparr> p_children := filter (\<lambda>c. j_id c \<noteq> i) (p_children data) \<rparr>))
       current_structure"

definition set_disabled :: "string \<Rightarrow> bool \<Rightarrow> jira_tree \<Rightarrow> jira_tree" where
  "set_disabled i flag current_structure =
     map (\<lambda>(parent_name, data).
            (parent_name,
             data \<lparr> p_children :=
                      map (\<lambda>c. if j_id c = i then c \<lparr> j_disabled := flag \<rparr> else c)
                        (p_children data) \<rparr>))
       current_structure"

definition create_option :: "string \<Rightarrow> string \<Rightarrow> bool \<Rightarrow> string \<Rightarrow> jira_tree \<Rightarrow> jira_tree" where
  "create_option i val disabled option_id current_structure =
     map (\<lambda>(parent_name, data).
            (if p_id data = option_id then
               (parent_name,
                data \<lparr> p_children :=
                         sort_key (\<lambda>c. lower (j_name c))
                           (p_children data
                              @ [\<lparr> j_name = val, j_disabled = disabled, j_id = i \<rparr>]) \<rparr>)
             else (parent_name, data)))
       current_structure"

fun apply_calls :: "(nat \<Rightarrow> string) \<Rightarrow> nat \<Rightarrow> api_call list \<Rightarrow> jira_tree \<Rightarrow> jira_tree" where
  "apply_calls new_id k [] current_structure = current_structure"
| "apply_calls new_id k (Delete_option i # calls) current_structure =
     apply_calls new_id (k + 1) calls (delete_option i current_structure)"
| "apply_calls new_id k (Set_disabled i flag # calls) current_structure =
     apply_calls new_id (k + 1) calls (set_disabled i flag current_structure)"
| "apply_calls new_id k (Create_option val disabled option_id # calls) current_structure =
     apply_calls new_id (k + 1) calls
       (create_option (new_id k) val disabled option_id current_structure)"
| "apply_calls new_id k (Move_options sorted_ids # calls) current_structure =
     apply_calls new_id (k + 1) calls current_structure"

text \<open>The current structure after one pass in apply mode.\<close>

definition after_pass :: "(nat \<Rightarrow> string) \<Rightarrow> string set \<Rightarrow> cascade \<Rightarrow> jira_tree \<Rightarrow> jira_tree" where
  "after_pass new_id planned_services cascade_structure current_structure =
     apply_calls new_id 0 (pass_calls planned_services cascade_structure current_structure)
       current_structure"

subsection \<open>The requests, seen from one parent and from one option\<close>




subsection \<open>The inputs, and when one pass is enough\<close>

definition all_children :: "jira_tree \<Rightarrow> jira_child list" where
  "all_children current_structure =
     concat (map (\<lambda>(parent_name, data). p_children data) current_structure)"


text \<open>
  The target children the pass works on: those of the target parents that are parents in
  Jira (the children of a missing parent are skipped), each with its parent. On the
  inputs of \<open>cascade_input\<close> below, a target parent is a parent in Jira under the name it
  has in the target, or not at all.
\<close>

definition active_children :: "cascade \<Rightarrow> jira_tree \<Rightarrow> (string \<times> target_child) list" where
  "active_children cascade_structure current_structure =
     concat (map (\<lambda>(parent_name, children).
                    if parent_name \<in> set (map fst current_structure)
                    then map (Pair parent_name) children
                    else [])
               cascade_structure)"

text \<open>The normalized names of the options that the search of lines 229 to 236 meets
  before it reaches the children of \<open>parent_name\<close>, and of the options under
  \<open>parent_name\<close>.\<close>

definition names_before :: "jira_tree \<Rightarrow> string \<Rightarrow> string list" where
  "names_before current_structure parent_name =
     map (\<lambda>c. normalize_name (j_name c))
       (all_children (takeWhile (\<lambda>(cur_parent, data). cur_parent \<noteq> parent_name)
                        current_structure))"

definition names_under :: "jira_tree \<Rightarrow> string \<Rightarrow> string list" where
  "names_under current_structure parent_name =
     map (\<lambda>c. normalize_name (j_name c))
       (case map_of current_structure parent_name of
          None \<Rightarrow> []
        | Some data \<Rightarrow> p_children data)"

text \<open>The first child of a target parent that has a given normalized name.\<close>

definition first_of_name :: "cascade \<Rightarrow> string \<Rightarrow> string \<Rightarrow> target_child option" where
  "first_of_name cascade_structure parent_name n =
     find (\<lambda>c. normalize_name (t_name c) = n)
       (case map_of cascade_structure parent_name of None \<Rightarrow> [] | Some cs \<Rightarrow> cs)"

text \<open>
  The inputs on which the question is settled. In the order of the definition:
  \<^item> both structures are dictionaries: no parent name occurs twice;
  \<^item> no Jira parent has the empty name (the search takes such a parent for no parent);
  \<^item> a target parent and a Jira parent whose names agree after normalization have the
    same name (the sweep looks the Jira name up as it is written);
  \<^item> the identifiers of the Jira parents are distinct, those of the children are
    distinct, and Jira gives a created option an identifier that no child has;
  \<^item> the children of every Jira parent are sorted by \<open>name.lower()\<close>, as lines 188 and 189
    leave them, and those of every target parent as well, as line 164 leaves them.

  The second and the third condition restrict the names of the parents; the others hold
  of what a run builds from the export and from the options of Jira.
\<close>

definition cascade_input :: "(nat \<Rightarrow> string) \<Rightarrow> cascade \<Rightarrow> jira_tree \<Rightarrow> bool" where
  "cascade_input new_id cascade_structure current_structure =
     (distinct (map fst cascade_structure)
      \<and> distinct (map fst current_structure)
      \<and> [] \<notin> set (map fst current_structure)
      \<and> (\<forall>tp \<in> set (map fst cascade_structure). \<forall>jp \<in> set (map fst current_structure).
            normalize_name tp = normalize_name jp \<longrightarrow> tp = jp)
      \<and> distinct (map (\<lambda>(parent_name, data). p_id data) current_structure)
      \<and> distinct (map j_id (all_children current_structure))
      \<and> (\<forall>k. new_id k \<notin> set (map j_id (all_children current_structure)))
      \<and> (\<forall>(parent_name, data) \<in> set current_structure.
            sorted (map (\<lambda>c. lower (j_name c)) (p_children data)))
      \<and> (\<forall>(parent_name, children) \<in> set cascade_structure.
            sorted (map (\<lambda>c. lower (t_name c)) children)))"

text \<open>
  When one pass settles the names. For every target child the pass works on:
  \<^item> its normalized name is not planned;
  \<^item> no option of that name stands under a parent that the search reaches before the
    child's own parent;
  \<^item> no target child that the pass works on under another parent has that name.

  A move is allowed: the option of a target child may stand under a parent that the
  search reaches after the child's own.
\<close>

definition names_settled :: "string set \<Rightarrow> cascade \<Rightarrow> jira_tree \<Rightarrow> bool" where
  "names_settled planned_services cascade_structure current_structure =
     (\<forall>(parent_name, child) \<in> set (active_children cascade_structure current_structure).
        normalize_name (t_name child) \<notin> planned_services
        \<and> normalize_name (t_name child) \<notin> set (names_before current_structure parent_name)
        \<and> (\<forall>(other_parent, other) \<in> set (active_children cascade_structure current_structure).
              normalize_name (t_name other) = normalize_name (t_name child) \<longrightarrow>
                other_parent = parent_name))"

text \<open>
  When one pass settles the flags. Target children of one parent with the same
  normalized name are compared with one option, the first of that name under the parent.
  When the pass has to create the options of that name, the first one is that of the
  first such target child: if it is disabled, the others must be as well.
\<close>

definition flags_settled :: "cascade \<Rightarrow> jira_tree \<Rightarrow> bool" where
  "flags_settled cascade_structure current_structure =
     (\<forall>(parent_name, child) \<in> set (active_children cascade_structure current_structure).
        normalize_name (t_name child) \<in> set (names_under current_structure parent_name)
        \<or> (case first_of_name cascade_structure parent_name (normalize_name (t_name child)) of
              None \<Rightarrow> True
            | Some first \<Rightarrow> t_disabled first \<longrightarrow> t_disabled child))"

text \<open>When one pass is enough.\<close>

definition one_pass_enough :: "string set \<Rightarrow> cascade \<Rightarrow> jira_tree \<Rightarrow> bool" where
  "one_pass_enough planned_services cascade_structure current_structure =
     (names_settled planned_services cascade_structure current_structure
      \<and> flags_settled cascade_structure current_structure)"


section \<open>Retirement label: properties\<close>

lemma base_summary_fixed:
  "\<not> startswith s ''Retired-'' \<Longrightarrow> \<not> startswith s ''Retired - '' \<Longrightarrow> base_summary s = s"
  by (subst base_summary.simps) simp

lemma base_summary_no_prefix:
  "\<not> startswith (base_summary s) ''Retired-'' \<and> \<not> startswith (base_summary s) ''Retired - ''"
proof (induction s rule: base_summary.induct)
  case (1 s)
  show ?case
  proof (cases "startswith s ''Retired-'' \<or> startswith s ''Retired - ''")
    case True
    then show ?thesis
      using 1 by (subst base_summary.simps, subst (2) base_summary.simps) auto
  next
    case False
    then show ?thesis
      by (subst base_summary.simps, subst (2) base_summary.simps) auto
  qed
qed

lemma startswith_take:
  "length p \<le> n \<Longrightarrow> startswith (take n s) p = startswith s p"
  by (simp add: startswith_def min_def)

lemma base_summary_retired_prefix:
  "base_summary (''Retired-'' @ t) = base_summary (strip t)"
  by (subst base_summary.simps) (simp add: startswith_def)

lemma expected_summary_trailing_blank:
  "expected_summary ''Payroll '' = ''Retired-Payroll ''"
  by (simp add: expected_summary_def base_summary.simps startswith_def)

lemma expected_summary_trailing_blank_again:
  "expected_summary ''Retired-Payroll '' = ''Retired-Payroll''"
  by (simp add: expected_summary_def base_summary.simps startswith_def strip_def is_space_def)

lemma expected_summary_inner_prefixes:
  "expected_summary ''IT Retired-Retired-Systems'' = ''Retired-IT Retired-Retired-Systems''"
  by (simp add: expected_summary_def base_summary.simps startswith_def)

text \<open>
  C2, as stated, fails twice. The derivation is not idempotent on a summary whose base
  label ends in a blank: \<open>"Payroll "\<close> derives \<open>"Retired-Payroll "\<close>, which derives
  \<open>"Retired-Payroll"\<close>. And a base label that holds \<open>Retired-Retired-\<close> away from its
  start keeps it: only leading prefixes are stripped.
\<close>

theorem retired_label_not_idempotent:
  "expected_summary (expected_summary ''Payroll '') \<noteq> expected_summary ''Payroll ''
   \<and> sublist ''Retired-Retired-'' (expected_summary ''IT Retired-Retired-Systems'')"
proof
  show "expected_summary (expected_summary ''Payroll '') \<noteq> expected_summary ''Payroll ''"
    by (simp add: expected_summary_trailing_blank expected_summary_trailing_blank_again)
  have "''Retired-IT Retired-Retired-Systems'' = ''Retired-IT '' @ ''Retired-Retired-'' @ ''Systems''"
    by simp
  then show "sublist ''Retired-Retired-'' (expected_summary ''IT Retired-Retired-Systems'')"
    unfolding expected_summary_inner_prefixes sublist_def by blast
qed

text \<open>
  C2, amended. For every current summary \<open>s\<close>: when the base label of \<open>s\<close>, cut to the
  247 characters that fit behind \<open>Retired-\<close>, has no leading or trailing whitespace, the
  derivation applied to its own output returns the same string; and no derived summary
  begins with \<open>Retired-Retired-\<close>.
\<close>

theorem retired_label_idempotent_on_trimmed_base:
  "(strip (take 247 (base_summary s)) = take 247 (base_summary s)
      \<longrightarrow> expected_summary (expected_summary s) = expected_summary s)
   \<and> \<not> startswith (expected_summary s) ''Retired-Retired-''"
proof (intro conjI impI)
  let ?b = "base_summary s"
  let ?t = "take 247 ?b"
  have e: "expected_summary s = ''Retired-'' @ ?t"
    by (simp add: expected_summary_def)
  have np: "\<not> startswith ?t ''Retired-''" "\<not> startswith ?t ''Retired - ''"
    using base_summary_no_prefix [of s] by (simp_all add: startswith_take)
  {
    assume st: "strip ?t = ?t"
    have "base_summary (expected_summary s) = base_summary (strip ?t)"
      unfolding e by (rule base_summary_retired_prefix)
    also have "\<dots> = ?t"
      using np by (simp add: st base_summary_fixed)
    finally have "base_summary (expected_summary s) = ?t" .
    then have "expected_summary (expected_summary s) = ''Retired-'' @ take 247 ?t"
      by (simp add: expected_summary_def)
    then show "expected_summary (expected_summary s) = expected_summary s"
      by (simp add: e)
  }
  show "\<not> startswith (expected_summary s) ''Retired-Retired-''"
    using base_summary_no_prefix [of s] unfolding e
    by (simp add: startswith_def)
qed

theorem retired_label_idempotent_on_trimmed_base_witness:
  "strip (take 247 (base_summary ''Retired - Retired-Payroll | A1''))
     = take 247 (base_summary ''Retired - Retired-Payroll | A1'')
   \<and> expected_summary ''Retired - Retired-Payroll | A1'' = ''Retired-Payroll | A1''
   \<and> expected_summary (expected_summary ''Retired - Retired-Payroll | A1'')
     = expected_summary ''Retired - Retired-Payroll | A1''"
proof -
  have b: "base_summary ''Retired - Retired-Payroll | A1'' = ''Payroll | A1''"
    by (simp add: base_summary.simps startswith_def strip_def is_space_def)
  have h: "strip (take 247 (base_summary ''Retired - Retired-Payroll | A1''))
             = take 247 (base_summary ''Retired - Retired-Payroll | A1'')"
    by (simp add: b strip_def is_space_def)
  show ?thesis
    using retired_label_idempotent_on_trimmed_base [of "''Retired - Retired-Payroll | A1''"] h
    by (simp add: b expected_summary_def)
qed

section \<open>Summary length\<close>

text \<open>
  C10. The summary written by \<open>create_business_service_issue\<close> and every replacement
  summary proposed by \<open>_compare_fields\<close>, in the retired branch and in the other one,
  has at most 255 characters, whatever the record and the current summary.
\<close>

theorem summaries_at_most_255:
  "length (create_summary record) \<le> 255
   \<and> (summary_update operational_status current_summary = Some s \<longrightarrow> length s \<le> 255)"
  by (auto simp: create_summary_def summary_update_def Let_def split: if_splits)

theorem summaries_at_most_255_witness:
  "summary_update (Some ''6'') ''Payroll | A1'' = Some ''Retired-Payroll | A1''
   \<and> length ''Retired-Payroll | A1'' \<le> 255
   \<and> length (create_summary [''name'' \<mapsto> JStr ''Payroll'', ''sys_id'' \<mapsto> JStr ''A1'']) \<le> 255"
proof -
  have h: "summary_update (Some ''6'') ''Payroll | A1'' = Some ''Retired-Payroll | A1''"
    by (simp add: summary_update_def base_summary.simps startswith_def)
  show ?thesis
    using summaries_at_most_255 [of "[''name'' \<mapsto> JStr ''Payroll'', ''sys_id'' \<mapsto> JStr ''A1'']"
        "Some ''6''" "''Payroll | A1''" "''Retired-Payroll | A1''"] h
    by simp
qed

section \<open>Updating an existing issue: properties\<close>

lemma dict_set_not_Nil: "dict_set d k v \<noteq> []"
  by (cases d) (auto split: if_splits)

text \<open>
  Whatever the comparison finds, the body clears the assignee first, so the dictionary
  tested by \<open>if fields_to_update\<close> is never empty and the comment is always attached.
\<close>

lemma update_payload_always_comments:
  "update_payload now rep_id cf existing_issue record = Inr p \<Longrightarrow>
     comment_add p = [''Business service info updated on '' @ now]"
  by (auto simp: update_payload_def Let_def dict_set_not_Nil
      split: sum.splits option.splits if_splits)

lemma update_payload_clears_assignee:
  "update_payload now rep_id cf existing_issue record = Inr p \<Longrightarrow>
     \<exists>fs. payload_fields p = Some fs \<and> map_of fs ''assignee'' = Some UNone"
proof -
  have a: "map_of (dict_set d k v) k = Some v" for d :: updates and k v
    by (induction d) auto
  have b: "k' \<noteq> k \<Longrightarrow> map_of (dict_set d k' v) k = map_of d k" for d :: updates and k k' v
    by (induction d) auto
  assume "update_payload now rep_id cf existing_issue record = Inr p"
  then show ?thesis
    by (auto simp: update_payload_def Let_def dict_set_not_Nil a b
        split: sum.splits option.splits if_splits)
qed

text \<open>
  C4. An issue whose compared fields and summary all agree with its record: the
  comparison returns the empty dictionary, and the body sent still carries the dated
  comment, beside the cleared assignee and the reporter.
\<close>

theorem update_comments_without_difference:
  "compare_fields
     \<lparr> business_domain_id = ''customfield_12657'', business_service_id = ''customfield_10519'',
       business_service_name = ''customfield_10489'',
       business_service_short_name = ''customfield_12823'',
       business_service_status = ''customfield_10541'',
       business_service_usage = ''customfield_10542'',
       business_service_classification = ''customfield_11623'' \<rparr>
     \<lparr> i_key = ''AMI-1'',
       i_fields = [''summary'' \<mapsto> FStr ''Payroll | A1'',
                   ''customfield_12657'' \<mapsto> FStr ''D1'',
                   ''customfield_10519'' \<mapsto> FStr ''A1'',
                   ''customfield_10489'' \<mapsto> FStr ''Payroll'',
                   ''customfield_12823'' \<mapsto> FStr ''PAY'',
                   ''customfield_10541'' \<mapsto> FDict (Some ''Operational (1)'') None,
                   ''customfield_10542'' \<mapsto> FDict (Some ''Production'') None,
                   ''customfield_11623'' \<mapsto> FDict (Some ''Business Service'') None] \<rparr>
     [''sys_id'' \<mapsto> JStr ''A1'', ''name'' \<mapsto> JStr ''Payroll'',
      ''u_business_domain'' \<mapsto> JStr ''D1'', ''u_short_service_id'' \<mapsto> JStr ''PAY'',
      ''operational_status'' \<mapsto> JStr ''1'', ''used_for'' \<mapsto> JStr ''Production'',
      ''service_classification'' \<mapsto> JStr ''Business Service'']
   = Inr []
   \<and> update_payload ''2026-01-15'' (Some ''acc-1'')
     \<lparr> business_domain_id = ''customfield_12657'', business_service_id = ''customfield_10519'',
       business_service_name = ''customfield_10489'',
       business_service_short_name = ''customfield_12823'',
       business_service_status = ''customfield_10541'',
       business_service_usage = ''customfield_10542'',
       business_service_classification = ''customfield_11623'' \<rparr>
     \<lparr> i_key = ''AMI-1'',
       i_fields = [''summary'' \<mapsto> FStr ''Payroll | A1'',
                   ''customfield_12657'' \<mapsto> FStr ''D1'',
                   ''customfield_10519'' \<mapsto> FStr ''A1'',
                   ''customfield_10489'' \<mapsto> FStr ''Payroll'',
                   ''customfield_12823'' \<mapsto> FStr ''PAY'',
                   ''customfield_10541'' \<mapsto> FDict (Some ''Operational (1)'') None,
                   ''customfield_10542'' \<mapsto> FDict (Some ''Production'') None,
                   ''customfield_11623'' \<mapsto> FDict (Some ''Business Service'') None] \<rparr>
     [''sys_id'' \<mapsto> JStr ''A1'', ''name'' \<mapsto> JStr ''Payroll'',
      ''u_business_domain'' \<mapsto> JStr ''D1'', ''u_short_service_id'' \<mapsto> JStr ''PAY'',
      ''operational_status'' \<mapsto> JStr ''1'', ''used_for'' \<mapsto> JStr ''Production'',
      ''service_classification'' \<mapsto> JStr ''Business Service'']
   = Inr \<lparr> labels_add = [''business-service-verified''],
           comment_add = [''Business service info updated on 2026-01-15''],
           payload_fields = Some [(''assignee'', UNone), (''reporter'', UAccount ''acc-1'')] \<rparr>"
  by (simp add: update_payload_def VERIFICATION_LABEL_def
      compare_fields_def field_mappings_def compare_field_def rec_get_def
      map_operational_status_def status_mapping_def normalize_value_def current_value_of_def
      py_or_def strip_def is_space_def summary_of_def summary_update_def base_summary.simps
      startswith_def Let_def)

section \<open>update\_issue: properties\<close>

lemmas update_issue_eval =
  update_issue_def update_issue_from.simps MAX_RETRIES_def RETRY_BASE_DELAY_def
  RATE_LIMIT_DELAY_def raises_for_status_def response_truthy_def

text \<open>On HTTP 429 at every attempt: three requests, a sleep of 10 then of 20 seconds
  between them, and \<open>None\<close>.\<close>

lemma update_issue_always_429:
  "update_issue (\<lambda>attempt. Status 429)
     = (None, [Put_request, Sleep 10, Put_request, Sleep 20, Put_request])"
  by (simp add: update_issue_eval)

text \<open>An exception of the transport ends the call at once; a success sleeps the fixed
  delay and returns the status code.\<close>

lemma update_issue_transport_error:
  "remote 0 = Raises \<Longrightarrow> update_issue remote = (None, [Put_request])"
  by (simp add: update_issue_eval)

lemma update_issue_success:
  "remote 0 = Status code \<Longrightarrow> \<not> raises_for_status code \<Longrightarrow>
     update_issue remote = (Some code, [Put_request, Sleep (1 / 2)])"
  by (auto simp: update_issue_eval)

text \<open>
  C8. A request answered with HTTP 400 at every attempt, a failure that is not a rate
  limit: \<open>update_issue\<close> sends it three times, without any sleep, before it returns
  \<open>None\<close>. In the handler, \<open>er.response and er.response.status_code != 429\<close> is false for
  every error response, so the branch that returns at once is never taken.
\<close>

theorem update_issue_retries_http_400:
  "update_issue (\<lambda>attempt. Status 400) = (None, [Put_request, Put_request, Put_request])"
  by (simp add: update_issue_eval)

section \<open>Paginated fetches: properties\<close>

lemma search_loop_from_state:
  "search_state remote n = Some (next_page_token, all_issues) \<Longrightarrow>
     search_loop remote 0 None [] = search_loop remote n next_page_token all_issues"
proof (induction n arbitrary: next_page_token all_issues)
  case 0
  then show ?case by simp
next
  case (Suc n)
  from Suc.prems obtain tok acc issues where
    st: "search_state remote n = Some (tok, acc)" and
    pg: "remote n tok = Search_page issues next_page_token" and
    go: "truthy next_page_token" "length issues \<noteq> 0" and
    acc: "all_issues = acc @ issues"
    by (auto split: option.splits search_response.splits if_splits)
  have "search_loop remote 0 None [] = search_loop remote n tok acc"
    by (rule Suc.IH [OF st])
  also have "\<dots> = search_loop remote (n + 1) next_page_token (acc @ issues)"
    using pg go by (subst search_loop.simps) simp
  finally show ?case
    by (simp add: acc)
qed

lemma options_loop_from_state:
  "options_state remote n = Some all_options \<Longrightarrow>
     options_loop remote 0 [] = options_loop remote (100 * n) all_options"
proof (induction n arbitrary: all_options)
  case 0
  then show ?case by simp
next
  case (Suc n)
  from Suc.prems obtain acc options where
    st: "options_state remote n = Some acc" and
    pg: "remote (100 * n) = Option_page options False" and
    acc: "all_options = acc @ options"
    by (auto split: option.splits option_response.splits if_splits)
  have "options_loop remote 0 [] = options_loop remote (100 * n) acc"
    by (rule Suc.IH [OF st])
  also have "\<dots> = options_loop remote (100 * n + 100) (acc @ options)"
    using pg by (subst options_loop.simps) simp
  finally show ?case
    by (simp add: acc add.commute)
qed

text \<open>
  C6, as stated, fails: the first page brings one record and a token, the second request
  fails, and \<open>fetch_jira_issues_paginated\<close> returns the empty list, not the record it held.
\<close>

theorem fetch_drops_accumulated_records:
  "fetch_jira_issues_paginated
     (\<lambda>n token. if n = 0 then Search_page [''AMI-1''] (Some ''page2'') else Search_fails)
   = Some []
   \<and> fetch_jira_issues_paginated
     (\<lambda>n token. if n = 0 then Search_page [''AMI-1''] (Some ''page2'') else Search_fails)
   \<noteq> Some [''AMI-1'']"
  by (simp add: fetch_jira_issues_paginated_def search_loop.simps truthy_def)

text \<open>
  C6, amended. When the request for page \<open>n + 1\<close> fails after \<open>n\<close> pages were retrieved,
  \<open>fetch_jira_issues_paginated\<close> returns the empty list and
  \<open>load_all_business_services_with_fields\<close> returns two empty indexes, whatever they had
  accumulated; \<open>fetch_all_options\<close> lets the exception through to its caller.
\<close>

theorem fetch_fault_discards_pages:
  "(search_state remote n = Some (next_page_token, all_issues)
      \<and> remote n next_page_token = Search_fails
    \<longrightarrow> fetch_jira_issues_paginated remote = Some []
        \<and> load_all_business_services_with_fields cf remote = Some ([], []))
   \<and> (options_state options_remote m = Some all_options
      \<and> options_remote (100 * m) = Option_fails
    \<longrightarrow> fetch_all_options options_remote = Some (Inl RequestException))"
proof (intro conjI impI)
  assume a: "search_state remote n = Some (next_page_token, all_issues)
               \<and> remote n next_page_token = Search_fails"
  then have "search_loop remote 0 None [] = search_loop remote n next_page_token all_issues"
    by (simp add: search_loop_from_state)
  also have "\<dots> = Some (Inl RequestException)"
    using a by (subst search_loop.simps) simp
  finally have l: "search_loop remote 0 None [] = Some (Inl RequestException)" .
  show "fetch_jira_issues_paginated remote = Some []"
    by (simp add: fetch_jira_issues_paginated_def l)
  show "load_all_business_services_with_fields cf remote = Some ([], [])"
    by (simp add: load_all_business_services_with_fields_def l)
next
  assume a: "options_state options_remote m = Some all_options
               \<and> options_remote (100 * m) = Option_fails"
  then have "options_loop options_remote 0 [] = options_loop options_remote (100 * m) all_options"
    by (simp add: options_loop_from_state)
  also have "\<dots> = Some (Inl RequestException)"
    using a by (subst options_loop.simps) simp
  finally show "fetch_all_options options_remote = Some (Inl RequestException)"
    by (simp add: fetch_all_options_def)
qed

theorem fetch_fault_discards_pages_witness:
  "search_state
     (\<lambda>n token. if n = 0 then Search_page [\<lparr> i_key = ''AMI-1'', i_fields = Map.empty \<rparr>] (Some ''page2'')
                 else Search_fails) (Suc 0)
     = Some (Some ''page2'', [\<lparr> i_key = ''AMI-1'', i_fields = Map.empty \<rparr>])
   \<and> fetch_jira_issues_paginated
     (\<lambda>n token. if n = 0 then Search_page [\<lparr> i_key = ''AMI-1'', i_fields = Map.empty \<rparr>] (Some ''page2'')
                 else Search_fails)
     = Some []
   \<and> load_all_business_services_with_fields
     \<lparr> business_domain_id = ''customfield_12657'', business_service_id = ''customfield_10519'',
       business_service_name = ''customfield_10489'',
       business_service_short_name = ''customfield_12823'',
       business_service_status = ''customfield_10541'',
       business_service_usage = ''customfield_10542'',
       business_service_classification = ''customfield_11623'' \<rparr>
     (\<lambda>n token. if n = 0 then Search_page [\<lparr> i_key = ''AMI-1'', i_fields = Map.empty \<rparr>] (Some ''page2'')
                 else Search_fails)
     = Some ([], [])
   \<and> options_state (\<lambda>start_at. if start_at = 0 then Option_page [''Finance''] False else Option_fails)
       (Suc 0)
     = Some [''Finance'']
   \<and> fetch_all_options (\<lambda>start_at. if start_at = 0 then Option_page [''Finance''] False else Option_fails)
     = Some (Inl RequestException)"
proof -
  let ?r = "\<lambda>(n::nat) (token::string option).
              if n = 0 then Search_page [\<lparr> i_key = ''AMI-1'', i_fields = Map.empty \<rparr>] (Some ''page2'')
              else Search_fails"
  let ?cf = "\<lparr> business_domain_id = ''customfield_12657'', business_service_id = ''customfield_10519'',
       business_service_name = ''customfield_10489'',
       business_service_short_name = ''customfield_12823'',
       business_service_status = ''customfield_10541'',
       business_service_usage = ''customfield_10542'',
       business_service_classification = ''customfield_11623'' \<rparr>"
  let ?o = "\<lambda>start_at::nat. if start_at = 0 then Option_page [''Finance''] False else Option_fails"
  have s: "search_state ?r (Suc 0) = Some (Some ''page2'', [\<lparr> i_key = ''AMI-1'', i_fields = Map.empty \<rparr>])"
    by (simp add: truthy_def)
  have f: "?r (Suc 0) (Some ''page2'') = Search_fails"
    by simp
  have t: "options_state ?o (Suc 0) = Some [''Finance'']"
    by simp
  have g: "?o (100 * Suc 0) = Option_fails"
    by simp
  show ?thesis
    using fetch_fault_discards_pages [of ?r "Suc 0" "Some ''page2''"
        "[\<lparr> i_key = ''AMI-1'', i_fields = Map.empty \<rparr>]" ?cf ?o "Suc 0" "[''Finance'']"] s f t g
    by simp
qed

text \<open>In the two token-based fetches a page without records ends the loop, token or not.\<close>

lemma search_loop_stops_on_empty_page:
  "remote n next_page_token = Search_page [] token \<Longrightarrow>
     search_loop remote n next_page_token all_issues = Some (Inr all_issues)"
  by (subst search_loop.simps) simp

lemma options_loop_never_returns:
  assumes "options_loop remote start_at all_options = Some r"
  shows "remote \<noteq> (\<lambda>start_at. Option_page [] False)"
proof (rule options_loop.raw_induct
    [where P = "\<lambda>remote start_at all_options r. remote \<noteq> (\<lambda>start_at. Option_page [] False)",
      OF _ assms])
  fix f :: "(nat \<Rightarrow> 'a option_response) \<Rightarrow> nat \<Rightarrow> 'a list \<Rightarrow> (py_error + 'a list) option"
  fix remote start_at all_options r
  assume ih: "\<And>remote start_at all_options y. f remote start_at all_options = Some y
                \<Longrightarrow> remote \<noteq> (\<lambda>start_at. Option_page [] False)"
  assume step: "(case remote start_at of
           Option_fails \<Rightarrow> Some (Inl RequestException)
         | Option_page options is_last \<Rightarrow>
             if is_last then Some (Inr (all_options @ options))
             else f remote (start_at + 100) (all_options @ options)) = Some r"
  show "remote \<noteq> (\<lambda>start_at. Option_page [] False)"
  proof
    assume e: "remote = (\<lambda>start_at. Option_page [] False)"
    with step have "f remote (start_at + 100) (all_options @ []) = Some r"
      by simp
    from ih [OF this] e show False
      by simp
  qed
qed

text \<open>
  C7. A remote side that answers every request with no option at all and
  \<open>isLast = false\<close>: \<open>fetch_all_options\<close> never returns. Its loop ends on \<open>isLast\<close> only;
  the check for an empty page that the two token-based fetches make is missing.
\<close>

theorem fetch_all_options_loops_on_empty_pages:
  "fetch_all_options (\<lambda>start_at. Option_page ([] :: string list) False) = None"
proof (cases "fetch_all_options (\<lambda>start_at. Option_page ([] :: string list) False)")
  case None
  then show ?thesis .
next
  case (Some r)
  then have "options_loop (\<lambda>start_at. Option_page ([] :: string list) False) 0 [] = Some r"
    by (simp add: fetch_all_options_def)
  from options_loop_never_returns [OF this] show ?thesis
    by simp
qed

section \<open>Adding the missing domains: properties\<close>

text \<open>
  C9. One active domain, in neither the automation table nor the processed identifiers,
  with the automatic update of the table enabled: the pass calls
  \<open>update_confluence_table_with_new_domain\<close> twice for it, since \<open>_add_active_domain\<close> is
  called on two consecutive lines.
\<close>

theorem active_domain_added_twice:
  "table_adds
     (add_missing_domains_to_confluence True (\<lambda>k. True)
        [Object [''sys_id'' \<mapsto> JStr ''D1'', ''name'' \<mapsto> JStr ''Finance'',
                 ''operational_status'' \<mapsto> JStr ''1'']]
        {} {}
        \<lparr> table_adds = [], planned_added = 0, retired_added = 0 \<rparr>)
   = [(\<lparr> info_sys_id = Some ''D1'', info_name = ''Finance'' \<rparr>, True),
      (\<lparr> info_sys_id = Some ''D1'', info_name = ''Finance'' \<rparr>, True)]"
  by (simp add: add_missing_domains_to_confluence_def add_missing_domain_def
      add_active_domain_def rec_get_def Let_def)


section \<open>The cascade pass: properties\<close>

lemmas normalize_eval =
  normalize_name_def lower_def lower_char_def strip_def is_space_def char_of_def bit_Suc_0_iff

lemmas pass_eval =
  sync_pass_def planned_deletes_def diff_child_def obsolete_sweep_def sweep_child_def Let_def


text \<open>
  C3. The service Billing is planned (status 20) and Payments is operational, both in
  the domain Finance; Jira holds both, enabled. The pass deletes Billing in its
  preliminary step, and its obsolete sweep, which reads the structure fetched before the
  deletion and does not look at the planned names, marks the same option
  \<open>To disable\<close> as well.
\<close>

theorem planned_child_deleted_and_disabled:
  "sync_pass {''billing''}
     [(''Finance'', [\<lparr> t_name = ''Payments'', t_disabled = False \<rparr>])]
     [(''Finance'',
       \<lparr> p_id = ''10'',
         p_children =
           [\<lparr> j_name = ''Billing'', j_disabled = False, j_id = ''99'' \<rparr>,
            \<lparr> j_name = ''Payments'', j_disabled = False, j_id = ''98'' \<rparr>] \<rparr>)]
   = ([Deleted ''Finance'' \<lparr> j_name = ''Billing'', j_disabled = False, j_id = ''99'' \<rparr>,
       OK ''Finance'' ''Payments'',
       To_disable ''Finance'' \<lparr> j_name = ''Billing'', j_disabled = False, j_id = ''99'' \<rparr>,
       OK ''Finance'' ''Payments''],
      None)"
  by (simp add: pass_eval normalize_eval)

text \<open>
  C5. The target parent is \<open>Finance\<close>, the Jira parent \<open>finance\<close>, and Billing is a child
  of both. The main loop matches the two parents by normalized name and finds Billing
  in place; the sweep looks the Jira parent's name up in the target structure as it is
  written, finds no target child, and marks Billing \<open>To disable\<close>.
\<close>

theorem sweep_matches_parent_names_exactly:
  "sync_pass {}
     [(''Finance'', [\<lparr> t_name = ''Billing'', t_disabled = False \<rparr>])]
     [(''finance'',
       \<lparr> p_id = ''10'',
         p_children = [\<lparr> j_name = ''Billing'', j_disabled = False, j_id = ''99'' \<rparr>] \<rparr>)]
   = ([OK ''Finance'' ''Billing'',
       To_disable ''finance'' \<lparr> j_name = ''Billing'', j_disabled = False, j_id = ''99'' \<rparr>],
      None)"
  by (simp add: pass_eval normalize_eval)


section \<open>When one pass is enough\<close>

subsection \<open>The requests, parent by parent\<close>













subsection \<open>The search and the loops of the pass\<close>









subsection \<open>Reading the conditions\<close>



























subsection \<open>The requests of the first pass\<close>


















subsection \<open>The structure after the first pass\<close>








subsection \<open>The options that the first pass creates under one parent\<close>
















subsection \<open>The second pass\<close>









subsection \<open>What a second pass without requests requires\<close>












subsection \<open>A move is decided again\<close>

lemmas apply_eval =
  after_pass_def pass_calls_def reorder_calls_def delete_option_def set_disabled_def
  create_option_def



subsection \<open>A move toward a parent that the search reaches first\<close>

text \<open>
  Billing belongs under Finance and stands under HR. The input meets the conditions; the
  first pass disables option 99 (for the move, and again in the sweep) and creates
  Billing under Finance, and the second pass sends its two reordering requests and
  nothing else.
\<close>

lemma move_to_earlier_parent_is_settled:
  "cascade_input (\<lambda>k. ''100'') [(''Finance'', [\<lparr> t_name = ''Billing'', t_disabled = False \<rparr>])]
     [(''Finance'', \<lparr> p_id = ''10'', p_children = [] \<rparr>),
      (''HR'', \<lparr> p_id = ''11'', p_children =
         [\<lparr> j_name = ''Billing'', j_disabled = False, j_id = ''99'' \<rparr>] \<rparr>)]
   \<and> one_pass_enough {} [(''Finance'', [\<lparr> t_name = ''Billing'', t_disabled = False \<rparr>])]
     [(''Finance'', \<lparr> p_id = ''10'', p_children = [] \<rparr>),
      (''HR'', \<lparr> p_id = ''11'', p_children =
         [\<lparr> j_name = ''Billing'', j_disabled = False, j_id = ''99'' \<rparr>] \<rparr>)]
   \<and> pass_calls {} [(''Finance'', [\<lparr> t_name = ''Billing'', t_disabled = False \<rparr>])]
     [(''Finance'', \<lparr> p_id = ''10'', p_children = [] \<rparr>),
      (''HR'', \<lparr> p_id = ''11'', p_children =
         [\<lparr> j_name = ''Billing'', j_disabled = False, j_id = ''99'' \<rparr>] \<rparr>)]
   = [Set_disabled ''99'' True, Create_option ''Billing'' False ''10'',
      Set_disabled ''99'' True, Move_options [''99'']]
   \<and> pass_calls {} [(''Finance'', [\<lparr> t_name = ''Billing'', t_disabled = False \<rparr>])]
     (after_pass (\<lambda>k. ''100'') {} [(''Finance'', [\<lparr> t_name = ''Billing'', t_disabled = False \<rparr>])]
        [(''Finance'', \<lparr> p_id = ''10'', p_children = [] \<rparr>),
         (''HR'', \<lparr> p_id = ''11'', p_children =
            [\<lparr> j_name = ''Billing'', j_disabled = False, j_id = ''99'' \<rparr>] \<rparr>)])
   = [Move_options [''100''], Move_options [''99'']]"
  by (simp add: cascade_input_def one_pass_enough_def names_settled_def flags_settled_def
      first_of_name_def all_children_def active_children_def names_before_def names_under_def
      apply_eval pass_eval normalize_eval)

subsection \<open>Names as they are written, and flags of one name\<close>

text \<open>
  The condition of \<open>cascade_input\<close> that restricts the names, on an input that fails it
  and meets \<open>one_pass_enough\<close>. The target parent is \<open>finance\<close>, the Jira parent
  \<open>Finance\<close>, and Billing is an active child of both. The sweep of the first pass
  disables Billing (it looks \<open>Finance\<close> up as it is written), and the second pass enables
  it again.
\<close>

lemma parent_name_as_written_is_undone:
  "one_pass_enough {} [(''finance'', [\<lparr> t_name = ''Billing'', t_disabled = False \<rparr>])]
     [(''Finance'', \<lparr> p_id = ''10'', p_children =
         [\<lparr> j_name = ''Billing'', j_disabled = False, j_id = ''99'' \<rparr>] \<rparr>)]
   \<and> pass_calls {} [(''finance'', [\<lparr> t_name = ''Billing'', t_disabled = False \<rparr>])]
     [(''Finance'', \<lparr> p_id = ''10'', p_children =
         [\<lparr> j_name = ''Billing'', j_disabled = False, j_id = ''99'' \<rparr>] \<rparr>)]
   = [Set_disabled ''99'' True, Move_options [''99'']]
   \<and> pass_calls {} [(''finance'', [\<lparr> t_name = ''Billing'', t_disabled = False \<rparr>])]
     (after_pass (\<lambda>k. ''100'') {} [(''finance'', [\<lparr> t_name = ''Billing'', t_disabled = False \<rparr>])]
        [(''Finance'', \<lparr> p_id = ''10'', p_children =
            [\<lparr> j_name = ''Billing'', j_disabled = False, j_id = ''99'' \<rparr>] \<rparr>)])
   = [Set_disabled ''99'' False, Move_options [''99'']]"
  by (simp add: one_pass_enough_def names_settled_def flags_settled_def active_children_def
      apply_eval pass_eval normalize_eval)

text \<open>
  The last condition of \<open>one_pass_enough\<close>, on an input that fails it alone. Payroll is
  exported twice under Finance, retired as \<open>Payroll\<close> and active as \<open>payroll\<close> followed by
  a blank, and Jira has neither. The first pass creates both options; the second pass
  compares both target children with the option that comes first, the disabled one, and
  enables it.
\<close>

lemma flags_of_one_name_are_mixed:
  "names_settled {} [(''Finance'', [\<lparr> t_name = ''Payroll'', t_disabled = True \<rparr>,
                                     \<lparr> t_name = ''payroll '', t_disabled = False \<rparr>])]
     [(''Finance'', \<lparr> p_id = ''10'', p_children = [] \<rparr>)]
   \<and> \<not> flags_settled [(''Finance'', [\<lparr> t_name = ''Payroll'', t_disabled = True \<rparr>,
                                      \<lparr> t_name = ''payroll '', t_disabled = False \<rparr>])]
     [(''Finance'', \<lparr> p_id = ''10'', p_children = [] \<rparr>)]
   \<and> pass_calls {} [(''Finance'', [\<lparr> t_name = ''Payroll'', t_disabled = True \<rparr>,
                                 \<lparr> t_name = ''payroll '', t_disabled = False \<rparr>])]
     [(''Finance'', \<lparr> p_id = ''10'', p_children = [] \<rparr>)]
   = [Create_option ''Payroll'' True ''10'', Create_option ''payroll '' False ''10'']
   \<and> pass_calls {} [(''Finance'', [\<lparr> t_name = ''Payroll'', t_disabled = True \<rparr>,
                                 \<lparr> t_name = ''payroll '', t_disabled = False \<rparr>])]
     (after_pass (\<lambda>k. if k = 0 then ''100'' else ''101'') {}
        [(''Finance'', [\<lparr> t_name = ''Payroll'', t_disabled = True \<rparr>,
                        \<lparr> t_name = ''payroll '', t_disabled = False \<rparr>])]
        [(''Finance'', \<lparr> p_id = ''10'', p_children = [] \<rparr>)])
   = [Set_disabled ''100'' False, Move_options [''100'', ''101'']]"
  by (simp add: names_settled_def flags_settled_def first_of_name_def all_children_def
      active_children_def names_before_def names_under_def apply_eval pass_eval normalize_eval)


end
